theory Spec2Isabelle
  imports Complex_Main "HOL-Library.Product_Lexorder" "HOL-Library.Sublist"
begin

section \<open>Flight schedule parser and query tool\<close>

text \<open>
  A shallow embedding of \<^verbatim>\<open>flight_project/flight_parser.py\<close>: the line validator
  \<^verbatim>\<open>parse_csv_file\<close> and the query loop of \<^verbatim>\<open>main\<close>.

  Text is a list of characters, each character read as a Unicode code point below 256
  (ASCII and the Latin-1 supplement); the character tests of Python's \<^verbatim>\<open>str\<close> are
  written out for that range. A file is the list of lines its iterator yields.
\<close>

subsection \<open>Python's string methods\<close>

definition ord :: "char \<Rightarrow> nat" where
  "ord c = of_char c"

text \<open>\<^verbatim>\<open>str.isspace\<close> on one character: TAB, LF, VT, FF, CR, FS, GS, RS, US, space, NEL, NBSP.\<close>

definition isspace :: "char \<Rightarrow> bool" where
  "isspace c = (let n = ord c in (9 \<le> n \<and> n \<le> 13) \<or> (28 \<le> n \<and> n \<le> 32) \<or> n = 133 \<or> n = 160)"

text \<open>Decimal digits (\<^verbatim>\<open>\d\<close> of the \<^verbatim>\<open>re\<close> module, \<^verbatim>\<open>str.isdecimal\<close>): below 256 only 0 to 9.\<close>

definition isdecimal :: "char \<Rightarrow> bool" where
  "isdecimal c = (let n = ord c in 48 \<le> n \<and> n \<le> 57)"

definition digit_val :: "char \<Rightarrow> int" where
  "digit_val c = int (ord c) - 48"

text \<open>Characters with the Unicode property Uppercase: A to Z and the Latin-1 capitals.\<close>

definition isupper_char :: "char \<Rightarrow> bool" where
  "isupper_char c = (let n = ord c in
     (65 \<le> n \<and> n \<le> 90) \<or> (192 \<le> n \<and> n \<le> 214) \<or> (216 \<le> n \<and> n \<le> 222))"

text \<open>
  Characters with the Unicode property Lowercase: a to z, the ordinal indicators
  (170, 186), the micro sign (181) and the Latin-1 small letters.
\<close>

definition islower_char :: "char \<Rightarrow> bool" where
  "islower_char c = (let n = ord c in
     (97 \<le> n \<and> n \<le> 122) \<or> n = 170 \<or> n = 181 \<or> n = 186
     \<or> (223 \<le> n \<and> n \<le> 246) \<or> (248 \<le> n \<and> n \<le> 255))"

text \<open>
  \<^verbatim>\<open>str.isalnum\<close> on one character: a letter, a decimal digit, a digit (superscript
  1, 2, 3) or a numeric character (the vulgar fractions 188 to 190).
\<close>

definition isalnum_char :: "char \<Rightarrow> bool" where
  "isalnum_char c = (let n = ord c in
     isupper_char c \<or> islower_char c \<or> isdecimal c
     \<or> n = 178 \<or> n = 179 \<or> n = 185 \<or> (188 \<le> n \<and> n \<le> 190))"

text \<open>\<^verbatim>\<open>str.isalnum\<close>: the string is not empty and every character is alphanumeric.\<close>

definition isalnum :: "string \<Rightarrow> bool" where
  "isalnum s = (s \<noteq> [] \<and> list_all isalnum_char s)"

text \<open>
  \<^verbatim>\<open>str.isupper\<close>: no character is lowercase (or titlecase: there is none below 256)
  and at least one character is uppercase. Characters without case are allowed.
\<close>

definition isupper :: "string \<Rightarrow> bool" where
  "isupper s = (list_all (\<lambda>c. \<not> islower_char c) s \<and> list_ex isupper_char s)"

definition strip :: "string \<Rightarrow> string" where
  "strip s = rev (dropWhile isspace (rev (dropWhile isspace s)))"

definition startswith :: "string \<Rightarrow> string \<Rightarrow> bool" where
  "startswith s p = (take (length p) s = p)"

text \<open>\<^verbatim>\<open>line.split(",")\<close>: the result is never empty (the last case branch is not reached).\<close>

fun split_comma :: "string \<Rightarrow> string list" where
  "split_comma [] = [[]]"
| "split_comma (c # cs) =
     (if c = CHR '','' then [] # split_comma cs
      else (case split_comma cs of p # ps \<Rightarrow> (c # p) # ps | [] \<Rightarrow> [[c]]))"

text \<open>\<^verbatim>\<open>sep.join(xs)\<close>\<close>

fun join :: "string \<Rightarrow> string list \<Rightarrow> string" where
  "join sep [] = []"
| "join sep [x] = x"
| "join sep (x # y # ys) = x @ sep @ join sep (y # ys)"

subsection \<open>Python's float\<close>

text \<open>
  A Python float is an IEEE 754 binary64 value. The finite ones are rationals; the two
  zeros are not told apart (every comparison of the program treats them alike).
\<close>

datatype pyfloat = Finite rat | PosInf | NegInf | NaN

text \<open>The comparisons \<^verbatim>\<open><=\<close> and \<^verbatim>\<open>>\<close> of floats: false whenever an operand is NaN.\<close>

fun float_le :: "pyfloat \<Rightarrow> pyfloat \<Rightarrow> bool" where
  "float_le NaN _ = False"
| "float_le _ NaN = False"
| "float_le NegInf _ = True"
| "float_le _ PosInf = True"
| "float_le (Finite a) (Finite b) = (a \<le> b)"
| "float_le _ _ = False"

definition float_gt :: "pyfloat \<Rightarrow> pyfloat \<Rightarrow> bool" where
  "float_gt a b = (a \<noteq> NaN \<and> b \<noteq> NaN \<and> \<not> float_le a b)"

text \<open>\<^verbatim>\<open>int.bit_length\<close> of a positive integer.\<close>

function bit_length :: "int \<Rightarrow> int" where
  "bit_length n = (if n \<le> 0 then 0 else 1 + bit_length (n div 2))"
  by pat_completeness auto
termination
  by (relation "measure nat") auto

definition pow2 :: "int \<Rightarrow> rat" where
  "pow2 e = (if 0 \<le> e then 2 ^ nat e else 1 / 2 ^ nat (- e))"

text \<open>The exponent \<open>e\<close> with \<open>2^e \<le> q < 2^(e+1)\<close>, for \<open>q > 0\<close>.\<close>

definition floor_log2 :: "rat \<Rightarrow> int" where
  "floor_log2 q = (let (a, b) = quotient_of q;
       e0 = bit_length a - bit_length b
     in if pow2 e0 \<le> q then e0 else e0 - 1)"

definition round_half_even :: "rat \<Rightarrow> int" where
  "round_half_even x = (let f = \<lfloor>x\<rfloor>; d = x - of_int f in
     if d < 1 / 2 then f else if 1 / 2 < d then f + 1 else if even f then f else f + 1)"

text \<open>
  Rounding a positive rational to binary64, to nearest with ties to even: 53 significant
  bits, the least exponent of a unit in the last place -1074, overflow to infinity.
\<close>

definition round_pos :: "rat \<Rightarrow> pyfloat" where
  "round_pos q = (let p = max (floor_log2 q - 52) (- 1074);
       r = of_int (round_half_even (q / pow2 p)) * pow2 p
     in if pow2 1024 \<le> r then PosInf else Finite r)"

fun float_neg :: "pyfloat \<Rightarrow> pyfloat" where
  "float_neg (Finite r) = Finite (- r)"
| "float_neg PosInf = NegInf"
| "float_neg NegInf = PosInf"
| "float_neg NaN = NaN"

definition round_double :: "rat \<Rightarrow> pyfloat" where
  "round_double q = (if q = 0 then Finite 0 else if 0 < q then round_pos q
     else float_neg (round_pos (- q)))"

text \<open>The value of a string of decimal digits.\<close>

definition digits_val :: "string \<Rightarrow> int" where
  "digits_val ds = foldl (\<lambda>n c. 10 * n + digit_val c) 0 ds"

definition lower_ascii :: "char \<Rightarrow> char" where
  "lower_ascii c = (let n = ord c in if 65 \<le> n \<and> n \<le> 90 then char_of (n + 32) else c)"

text \<open>
  The first step of \<^verbatim>\<open>float(str)\<close>: a character below 127 stays, another white-space
  character becomes a space, and any other character becomes one that no literal contains.
\<close>

definition float_transform :: "char \<Rightarrow> char" where
  "float_transform c = (if ord c < 127 then c else if isspace c then CHR '' '' else CHR ''?'')"

text \<open>The white space that \<^verbatim>\<open>float\<close> strips at both ends: space, TAB, LF, VT, FF, CR.\<close>

definition isspace_ascii :: "char \<Rightarrow> bool" where
  "isspace_ascii c = (let n = ord c in (9 \<le> n \<and> n \<le> 13) \<or> n = 32)"

text \<open>
  Underscores are dropped when each one stands between two digits; otherwise the
  string is no literal. The argument \<open>prev\<close> is the previous character, if any.
\<close>

fun drop_underscores :: "char option \<Rightarrow> string \<Rightarrow> string option" where
  "drop_underscores prev [] = (if prev = Some (CHR ''_'') then None else Some [])"
| "drop_underscores prev (c # cs) =
     (if c = CHR ''_'' then
        (case prev of
           Some p \<Rightarrow> if isdecimal p then drop_underscores (Some c) cs else None
         | None \<Rightarrow> None)
      else if prev = Some (CHR ''_'') \<and> \<not> isdecimal c then None
      else map_option ((#) c) (drop_underscores (Some c) cs))"

text \<open>An optional sign: the sign is negative, and the rest.\<close>

fun take_sign :: "string \<Rightarrow> bool \<times> string" where
  "take_sign (c # cs) = (if c = CHR ''-'' then (True, cs) else if c = CHR ''+'' then (False, cs)
     else (False, c # cs))"
| "take_sign [] = (False, [])"

text \<open>
  The exponent part of a literal: nothing, or \<^verbatim>\<open>e\<close> or \<^verbatim>\<open>E\<close>, an optional sign and at
  least one digit, up to the end of the string.
\<close>

definition parse_exponent :: "string \<Rightarrow> int option" where
  "parse_exponent s = (case s of
       [] \<Rightarrow> Some 0
     | c # cs \<Rightarrow>
         if c = CHR ''e'' \<or> c = CHR ''E'' then
           (let (neg, ds) = take_sign cs in
            if ds \<noteq> [] \<and> list_all isdecimal ds
            then Some (if neg then - digits_val ds else digits_val ds)
            else None)
         else None)"

text \<open>
  An unsigned decimal literal: digits, an optional point with digits (at least one digit
  in all), an optional exponent. The result is its exact value.
\<close>

definition parse_decimal :: "string \<Rightarrow> rat option" where
  "parse_decimal s = (let ip = takeWhile isdecimal s; r1 = dropWhile isdecimal s;
       (fp, r2) = (case r1 of
           c # cs \<Rightarrow> if c = CHR ''.'' then (takeWhile isdecimal cs, dropWhile isdecimal cs)
                     else ([], r1)
         | [] \<Rightarrow> ([], r1))
     in if ip = [] \<and> fp = [] then None
        else (case parse_exponent r2 of
            None \<Rightarrow> None
          | Some e \<Rightarrow>
              Some (of_int (digits_val (ip @ fp)) *
                (let k = e - int (length fp) in
                 if 0 \<le> k then 10 ^ nat k else 1 / 10 ^ nat (- k)))))"

text \<open>
  \<^verbatim>\<open>float(s)\<close> for a string: \<open>None\<close> stands for the \<^verbatim>\<open>ValueError\<close>. After the white
  space and the underscores, a sign and then \<^verbatim>\<open>inf\<close>, \<^verbatim>\<open>infinity\<close> or \<^verbatim>\<open>nan\<close> in any
  case, or a decimal literal, which is rounded to binary64.
\<close>

definition py_float :: "string \<Rightarrow> pyfloat option" where
  "py_float s = (let t = rev (dropWhile isspace_ascii (rev (dropWhile isspace_ascii
       (map float_transform s)))) in
     case drop_underscores None t of
       None \<Rightarrow> None
     | Some u \<Rightarrow>
         (let (neg, body) = take_sign u; w = map lower_ascii body in
          if w = ''inf'' \<or> w = ''infinity'' then Some (if neg then NegInf else PosInf)
          else if w = ''nan'' then Some NaN
          else (case parse_decimal body of
              None \<Rightarrow> None
            | Some q \<Rightarrow> Some (round_double (if neg then - q else q)))))"

subsection \<open>datetime.strptime with the format %Y-%m-%d %H:%M\<close>

text \<open>
  A datetime with minute precision: year, month, day, hour, minute. Python compares
  datetimes field by field in this order, which is the lexicographic order of the tuple.
\<close>

type_synonym datetime = "int \<times> int \<times> int \<times> int \<times> int"

text \<open>
  \<^verbatim>\<open>strptime\<close> turns the format into a regular expression and matches it against
  the text with a backtracking matcher. A fragment of the expression is modelled by the
  list of its matches at the start of the text, in the order the matcher tries them: the
  text of the group and the rest.
\<close>

definition chr_in :: "char \<Rightarrow> char \<Rightarrow> char \<Rightarrow> bool" where
  "chr_in lo hi c = (ord lo \<le> ord c \<and> ord c \<le> ord hi)"

definition one_char :: "(char \<Rightarrow> bool) \<Rightarrow> string \<Rightarrow> (string \<times> string) list" where
  "one_char p s = (case s of a # r \<Rightarrow> if p a then [([a], r)] else [] | [] \<Rightarrow> [])"

definition two_chars :: "(char \<Rightarrow> bool) \<Rightarrow> (char \<Rightarrow> bool) \<Rightarrow> string \<Rightarrow> (string \<times> string) list" where
  "two_chars p1 p2 s = (case s of
       a # b # r \<Rightarrow> if p1 a \<and> p2 b then [([a, b], r)] else []
     | _ \<Rightarrow> [])"

text \<open>\<^verbatim>\<open>%Y\<close> is \<^verbatim>\<open>\d\d\d\d\<close>.\<close>

definition rx_Y :: "string \<Rightarrow> (string \<times> string) list" where
  "rx_Y s = (case s of
       a # b # c # d # r \<Rightarrow> if list_all isdecimal [a, b, c, d] then [([a, b, c, d], r)] else []
     | _ \<Rightarrow> [])"

text \<open>\<^verbatim>\<open>%m\<close> is \<^verbatim>\<open>1[0-2]|0[1-9]|[1-9]\<close>.\<close>

definition rx_m :: "string \<Rightarrow> (string \<times> string) list" where
  "rx_m s = two_chars ((=) CHR ''1'') (chr_in CHR ''0'' CHR ''2'') s
     @ two_chars ((=) CHR ''0'') (chr_in CHR ''1'' CHR ''9'') s
     @ one_char (chr_in CHR ''1'' CHR ''9'') s"

text \<open>\<^verbatim>\<open>%d\<close> is \<^verbatim>\<open>3[0-1]|[1-2]\d|0[1-9]|[1-9]| [1-9]\<close>.\<close>

definition rx_d :: "string \<Rightarrow> (string \<times> string) list" where
  "rx_d s = two_chars ((=) CHR ''3'') (chr_in CHR ''0'' CHR ''1'') s
     @ two_chars (chr_in CHR ''1'' CHR ''2'') isdecimal s
     @ two_chars ((=) CHR ''0'') (chr_in CHR ''1'' CHR ''9'') s
     @ one_char (chr_in CHR ''1'' CHR ''9'') s
     @ two_chars ((=) CHR '' '') (chr_in CHR ''1'' CHR ''9'') s"

text \<open>\<^verbatim>\<open>%H\<close> is \<^verbatim>\<open>2[0-3]|[0-1]\d|\d\<close>.\<close>

definition rx_H :: "string \<Rightarrow> (string \<times> string) list" where
  "rx_H s = two_chars ((=) CHR ''2'') (chr_in CHR ''0'' CHR ''3'') s
     @ two_chars (chr_in CHR ''0'' CHR ''1'') isdecimal s
     @ one_char isdecimal s"

text \<open>\<^verbatim>\<open>%M\<close> is \<^verbatim>\<open>[0-5]\d|\d\<close>.\<close>

definition rx_M :: "string \<Rightarrow> (string \<times> string) list" where
  "rx_M s = two_chars (chr_in CHR ''0'' CHR ''5'') isdecimal s @ one_char isdecimal s"

text \<open>The space of the format is \<^verbatim>\<open>\s+\<close>, greedy: the longest run first.\<close>

definition rx_spaces :: "string \<Rightarrow> (string \<times> string) list" where
  "rx_spaces s = map (\<lambda>k. (take k s, drop k s)) (rev [1..<Suc (length (takeWhile isspace s))])"

text \<open>All matches of the whole expression, in the matcher's order, with the unmatched rest.\<close>

definition strptime_matches :: "string \<Rightarrow> ((string \<times> string \<times> string \<times> string \<times> string) \<times> string) list" where
  "strptime_matches s =
     [((Y, m, d, H, M), r9).
        (Y, r1) \<leftarrow> rx_Y s, (h1, r2) \<leftarrow> one_char ((=) CHR ''-'') r1,
        (m, r3) \<leftarrow> rx_m r2, (h2, r4) \<leftarrow> one_char ((=) CHR ''-'') r3,
        (d, r5) \<leftarrow> rx_d r4, (sp, r6) \<leftarrow> rx_spaces r5,
        (H, r7) \<leftarrow> rx_H r6, (co, r8) \<leftarrow> one_char ((=) CHR '':'') r7,
        (M, r9) \<leftarrow> rx_M r8]"

text \<open>\<^verbatim>\<open>int\<close> of a matched group: the day group may start with a space.\<close>

definition group_int :: "string \<Rightarrow> int" where
  "group_int g = digits_val (dropWhile isspace g)"

definition is_leap :: "int \<Rightarrow> bool" where
  "is_leap y = (y mod 4 = 0 \<and> (y mod 100 \<noteq> 0 \<or> y mod 400 = 0))"

definition days_in_month :: "int \<Rightarrow> int \<Rightarrow> int" where
  "days_in_month y m = (if m = 2 then (if is_leap y then 29 else 28)
     else if m = 4 \<or> m = 6 \<or> m = 9 \<or> m = 11 then 30 else 31)"

text \<open>
  \<^verbatim>\<open>datetime.strptime(s, "%Y-%m-%d %H:%M")\<close>; \<open>None\<close> stands for the \<^verbatim>\<open>ValueError\<close>:
  no match, text left over after the first match, a year 0 or a day the month does not have.
\<close>

definition strptime :: "string \<Rightarrow> datetime option" where
  "strptime s = (case strptime_matches s of
       [] \<Rightarrow> None
     | ((Y, m, d, H, M), rest) # _ \<Rightarrow>
         if rest \<noteq> [] then None
         else (let year = group_int Y; month = group_int m; day = group_int d in
           if 1 \<le> year \<and> day \<le> days_in_month year month
           then Some (year, month, day, group_int H, group_int M)
           else None))"

subsection \<open>The validator: parse_csv_file\<close>

datatype py_error = ValueError | TypeError | AttributeError

text \<open>The dictionary appended to \<^verbatim>\<open>valid_flights\<close>.\<close>

record flight =
  flight_id :: string
  origin :: string
  destination :: string
  departure_datetime :: string
  arrival_datetime :: string
  price :: pyfloat

text \<open>
  An entry of \<^verbatim>\<open>error_entries\<close>. The program renders it as the text
  \<^verbatim>\<open>Line <entry_line>: <entry_text> -> <entry_reason>\<close> (with an arrow character);
  the three parts are kept apart here.
\<close>

record error_entry =
  entry_line :: nat
  entry_text :: string
  entry_reason :: string

definition check_airport :: "string \<Rightarrow> string \<Rightarrow> string option" where
  "check_airport code field_name =
     (if length code \<noteq> 3 \<or> \<not> isupper code then Some (''invalid '' @ field_name @ '' code'')
      else if code = ''XXX'' then Some (''invalid '' @ field_name @ '' code'')
      else None)"

text \<open>The test on the first field: \<^verbatim>\<open>2 <= len(flight_id) <= 8 and flight_id.isalnum()\<close>.\<close>

definition flight_id_ok :: "string \<Rightarrow> bool" where
  "flight_id_ok fid = (2 \<le> length fid \<and> length fid \<le> 8 \<and> isalnum fid)"

text \<open>
  The checks on the six fields. Each one appends to \<^verbatim>\<open>reasons\<close> the reasons it
  finds, if any; an exception of \<^verbatim>\<open>strptime\<close> or \<^verbatim>\<open>float\<close> is caught on the spot.
\<close>

definition field_reasons ::
  "string \<Rightarrow> string \<Rightarrow> string \<Rightarrow> string \<Rightarrow> string \<Rightarrow> string \<Rightarrow> string list" where
  "field_reasons fid org dst dep_str arr_str price_str =
     (let reasons = [];
          reasons = reasons @ (if \<not> flight_id_ok fid then [''invalid flight_id''] else []);
          r = check_airport org ''origin'';
          reasons = reasons @ (case r of Some m \<Rightarrow> [m] | None \<Rightarrow> []);
          r = check_airport dst ''destination'';
          reasons = reasons @ (case r of Some m \<Rightarrow> [m] | None \<Rightarrow> []);
          dep_dt = strptime dep_str;
          reasons = reasons @ (case dep_dt of
              None \<Rightarrow> [''invalid departure datetime''] | Some _ \<Rightarrow> []);
          arr_dt = strptime arr_str;
          reasons = reasons @ (case arr_dt of
              None \<Rightarrow> [''invalid arrival datetime''] | Some _ \<Rightarrow> []);
          reasons = reasons @ (case (dep_dt, arr_dt) of
              (Some d, Some a) \<Rightarrow> if a \<le> d then [''arrival before departure''] else []
            | _ \<Rightarrow> []);
          reasons = reasons @ (case py_float price_str of
              Some p \<Rightarrow> if float_le p (Finite 0) then [''negative price value''] else []
            | None \<Rightarrow> [''invalid price''])
      in reasons)"

text \<open>
  What one iteration of the loop over the lines does: nothing, an entry for a comment
  line, an entry for a rejected line, a flight for an accepted line, or an exception
  that leaves the loop.
\<close>

datatype outcome = Skipped | Notice error_entry | Rejected error_entry | Accepted flight
  | Raised py_error

definition process_line :: "nat \<Rightarrow> string \<Rightarrow> outcome" where
  "process_line line_number raw_line =
     (let line = strip raw_line in
      if line = [] then Skipped
      else if startswith line ''#'' then
        Notice \<lparr>entry_line = line_number, entry_text = line,
          entry_reason = ''comment line, ignored for data parsing''\<rparr>
      else if startswith line ''flight_id'' then Skipped
      else (let parts = split_comma line in
        if length parts \<noteq> 6 then
          Rejected \<lparr>entry_line = line_number, entry_text = line,
            entry_reason = ''missing required fields''\<rparr>
        else (let fid = parts ! 0; org = parts ! 1; dst = parts ! 2;
                  dep_str = parts ! 3; arr_str = parts ! 4; price_str = parts ! 5;
                  reasons = field_reasons fid org dst dep_str arr_str price_str in
          if length reasons = 0 then
            (case py_float price_str of
               None \<Rightarrow> Raised ValueError
             | Some p \<Rightarrow>
                 Accepted \<lparr>flight_id = fid, origin = org, destination = dst,
                   departure_datetime = dep_str, arrival_datetime = arr_str, price = p\<rparr>)
          else
            Rejected \<lparr>entry_line = line_number, entry_text = line,
              entry_reason = join '', '' reasons\<rparr>)))"

text \<open>The loop over the enumerated lines, with the two lists it appends to.\<close>

fun parse_lines ::
  "nat \<Rightarrow> string list \<Rightarrow> flight list \<Rightarrow> error_entry list
     \<Rightarrow> py_error + flight list \<times> error_entry list" where
  "parse_lines n [] valid_flights error_entries = Inr (valid_flights, error_entries)"
| "parse_lines n (raw_line # rest) valid_flights error_entries =
     (case process_line n raw_line of
        Skipped \<Rightarrow> parse_lines (Suc n) rest valid_flights error_entries
      | Notice e \<Rightarrow> parse_lines (Suc n) rest valid_flights (error_entries @ [e])
      | Rejected e \<Rightarrow> parse_lines (Suc n) rest valid_flights (error_entries @ [e])
      | Accepted f \<Rightarrow> parse_lines (Suc n) rest (valid_flights @ [f]) error_entries
      | Raised x \<Rightarrow> Inl x)"

definition parse_csv_file :: "string list \<Rightarrow> py_error + flight list \<times> error_entry list" where
  "parse_csv_file lines = parse_lines 1 lines [] []"

text \<open>
  The three kinds of line that are no data, by the tests of the loop body: blank after
  stripping, starting with \<^verbatim>\<open>#\<close>, starting with \<^verbatim>\<open>flight_id\<close>.
\<close>

definition blank_line :: "string \<Rightarrow> bool" where
  "blank_line raw_line = (strip raw_line = [])"

definition comment_line :: "string \<Rightarrow> bool" where
  "comment_line raw_line = startswith (strip raw_line) ''#''"

definition header_line :: "string \<Rightarrow> bool" where
  "header_line raw_line = startswith (strip raw_line) ''flight_id''"

text \<open>An entry of the error list is a rejection unless it is the notice for a comment line.\<close>

definition is_rejection :: "error_entry \<Rightarrow> bool" where
  "is_rejection e = (entry_reason e \<noteq> ''comment line, ignored for data parsing'')"

text \<open>
  The reasons that apply to six fields, listed in the order of the checks: each rule
  with the condition under which it fails, every failing rule kept.
\<close>

definition applicable_reasons ::
  "string \<Rightarrow> string \<Rightarrow> string \<Rightarrow> string \<Rightarrow> string \<Rightarrow> string \<Rightarrow> string list" where
  "applicable_reasons fid org dst dep_str arr_str price_str =
     map snd (filter fst
       [(\<not> flight_id_ok fid, ''invalid flight_id''),
        (check_airport org ''origin'' \<noteq> None, ''invalid origin code''),
        (check_airport dst ''destination'' \<noteq> None, ''invalid destination code''),
        (strptime dep_str = None, ''invalid departure datetime''),
        (strptime arr_str = None, ''invalid arrival datetime''),
        (case (strptime dep_str, strptime arr_str) of
           (Some d, Some a) \<Rightarrow> a \<le> d | _ \<Rightarrow> False, ''arrival before departure''),
        (py_float price_str = None, ''invalid price''),
        (case py_float price_str of Some p \<Rightarrow> float_le p (Finite 0) | None \<Rightarrow> False,
           ''negative price value'')])"

subsection \<open>The query loop of main\<close>

text \<open>
  A value read by \<^verbatim>\<open>json.load\<close>. A number is an integer or a float, both compared with
  a float by value; \<^verbatim>\<open>NaN\<close> and the infinities are read too. An object is the list of
  its items in order.
\<close>

datatype json = JNull | JBool bool | JNum pyfloat | JStr string | JArray "json list"
  | JObject "(string \<times> json) list"

text \<open>
  The database is a list of flights with the six fields \<^verbatim>\<open>parse_csv_file\<close> writes.
  \<^verbatim>\<open>to_dt\<close> raises \<^verbatim>\<open>ValueError\<close> on a string that does not parse and
  \<^verbatim>\<open>TypeError\<close> on a value that is no string.
\<close>

definition to_dt :: "json \<Rightarrow> py_error + datetime" where
  "to_dt x = (case x of
       JStr s \<Rightarrow> (case strptime s of Some d \<Rightarrow> Inr d | None \<Rightarrow> Inl ValueError)
     | _ \<Rightarrow> Inl TypeError)"

text \<open>\<^verbatim>\<open>flight["price"] > value\<close>: a number or a boolean compares, anything else raises.\<close>

definition price_gt :: "pyfloat \<Rightarrow> json \<Rightarrow> py_error + bool" where
  "price_gt p value = (case value of
       JNum v \<Rightarrow> Inr (float_gt p v)
     | JBool b \<Rightarrow> Inr (float_gt p (Finite (if b then 1 else 0)))
     | _ \<Rightarrow> Inl TypeError)"

text \<open>\<^verbatim>\<open>flight[key]\<close> for one of the three keys compared exactly.\<close>

definition flight_field :: "flight \<Rightarrow> string \<Rightarrow> string" where
  "flight_field flight key = (if key = ''flight_id'' then flight_id flight
     else if key = ''origin'' then origin flight else destination flight)"

text \<open>One iteration of the loop over \<^verbatim>\<open>q.items()\<close>: the new value of \<^verbatim>\<open>ok\<close>.\<close>

definition check_key :: "flight \<Rightarrow> string \<Rightarrow> json \<Rightarrow> bool \<Rightarrow> py_error + bool" where
  "check_key flight key value ok =
     (if key \<in> set [''flight_id'', ''origin'', ''destination''] then
        Inr (if JStr (flight_field flight key) \<noteq> value then False else ok)
      else if key = ''price'' then
        (case price_gt (price flight) value of
           Inl e \<Rightarrow> Inl e
         | Inr b \<Rightarrow> Inr (if b then False else ok))
      else if key = ''departure_datetime'' then
        (case to_dt (JStr (departure_datetime flight)) of
           Inl e \<Rightarrow> Inl e
         | Inr a \<Rightarrow> (case to_dt value of
             Inl e \<Rightarrow> Inl e
           | Inr b \<Rightarrow> Inr (if a < b then False else ok)))
      else if key = ''arrival_datetime'' then
        (case to_dt (JStr (arrival_datetime flight)) of
           Inl e \<Rightarrow> Inl e
         | Inr a \<Rightarrow> (case to_dt value of
             Inl e \<Rightarrow> Inl e
           | Inr b \<Rightarrow> Inr (if b < a then False else ok)))
      else Inr ok)"

fun match_items :: "flight \<Rightarrow> (string \<times> json) list \<Rightarrow> bool \<Rightarrow> py_error + bool" where
  "match_items flight [] ok = Inr ok"
| "match_items flight ((key, value) # items) ok =
     (case check_key flight key value ok of
        Inl e \<Rightarrow> Inl e
      | Inr ok' \<Rightarrow> match_items flight items ok')"

text \<open>\<^verbatim>\<open>q.items()\<close> raises \<^verbatim>\<open>AttributeError\<close> when \<^verbatim>\<open>q\<close> is no object.\<close>

definition match_flight :: "flight \<Rightarrow> json \<Rightarrow> py_error + bool" where
  "match_flight flight q = (case q of
       JObject items \<Rightarrow> match_items flight items True
     | _ \<Rightarrow> Inl AttributeError)"

text \<open>The loop over the flights of the database, appending to \<^verbatim>\<open>matches\<close>.\<close>

fun query_matches :: "flight list \<Rightarrow> json \<Rightarrow> flight list \<Rightarrow> py_error + flight list" where
  "query_matches [] q matches = Inr matches"
| "query_matches (flight # rest) q matches =
     (case match_flight flight q of
        Inl e \<Rightarrow> Inl e
      | Inr ok \<Rightarrow> query_matches rest q (if ok then matches @ [flight] else matches))"

record response =
  query :: json
  matches :: "flight list"

text \<open>The loop over the queries, appending to \<^verbatim>\<open>responses\<close>.\<close>

fun query_loop :: "flight list \<Rightarrow> json list \<Rightarrow> response list \<Rightarrow> py_error + response list" where
  "query_loop all_valid [] responses = Inr responses"
| "query_loop all_valid (q # queries) responses =
     (case query_matches all_valid q [] of
        Inl e \<Rightarrow> Inl e
      | Inr ms \<Rightarrow> query_loop all_valid queries (responses @ [\<lparr>query = q, matches = ms\<rparr>]))"

text \<open>
  The query run on the loaded file: one object is wrapped into a list, an array is
  iterated, a string is iterated character by character, any other value cannot be
  iterated. The result is the list written to the response file, or the exception that
  ends the program before anything is written.
\<close>

definition run_queries :: "flight list \<Rightarrow> json \<Rightarrow> py_error + response list" where
  "run_queries all_valid queries = (case queries of
       JObject items \<Rightarrow> query_loop all_valid [queries] []
     | JArray qs \<Rightarrow> query_loop all_valid qs []
     | JStr s \<Rightarrow> query_loop all_valid (map (\<lambda>c. JStr [c]) s) []
     | _ \<Rightarrow> Inl TypeError)"

section \<open>Evaluating the model on concrete text\<close>

lemmas char_eval = ord_def isspace_def isdecimal_def isupper_char_def islower_char_def
  isalnum_char_def

lemmas strptime_eval = strptime_def strptime_matches_def rx_Y_def rx_m_def rx_d_def rx_H_def
  rx_M_def rx_spaces_def one_char_def two_chars_def chr_in_def group_int_def digits_val_def
  digit_val_def days_in_month_def is_leap_def

lemmas float_eval = py_float_def float_transform_def isspace_ascii_def lower_ascii_def
  parse_decimal_def parse_exponent_def digits_val_def digit_val_def round_double_def
  round_pos_def floor_log2_def round_half_even_def pow2_def Let_def

lemmas field_eval = strip_def startswith_def flight_id_ok_def isalnum_def check_airport_def
  isupper_def

lemma strptime_examples:
  "strptime ''2024-05-01 10:00'' = Some (2024, 5, 1, 10, 0)"
  "strptime ''2024-05-01 14:00'' = Some (2024, 5, 1, 14, 0)"
  "strptime ''2024-05-02 00:00'' = Some (2024, 5, 2, 0, 0)"
  "strptime ''2024-05-03 08:00'' = Some (2024, 5, 3, 8, 0)"
  "strptime ''2024-5-1 9:05'' = Some (2024, 5, 1, 9, 5)"
  "strptime ''2024-5-1 14:00'' = Some (2024, 5, 1, 14, 0)"
  "strptime ''tomorrow'' = None"
  "strptime ''2024-13-01 10:00'' = None"
  by (simp_all add: strptime_eval char_eval)

lemma py_float_examples:
  "py_float ''250'' = Some (Finite 250)"
  "py_float ''inf'' = Some PosInf"
  "py_float ''nan'' = Some NaN"
  "py_float ''-1'' = Some (Finite (- 1))"
  by (simp_all add: float_eval char_eval)

lemma field_examples:
  "flight_id_ok ''AB12''"
  "\<not> flight_id_ok ''A''"
  "check_airport ''JFK'' ''origin'' = None"
  "check_airport ''JFK'' ''destination'' = None"
  "check_airport ''LAX'' ''destination'' = None"
  "check_airport ''A1B'' ''origin'' = None"
  "check_airport ''jfk'' ''origin'' = Some ''invalid origin code''"
  "check_airport ''jfk'' ''destination'' = Some ''invalid destination code''"
  "check_airport ''XXX'' ''destination'' = Some ''invalid destination code''"
  by (simp_all add: field_eval char_eval)

lemma split_examples:
  "split_comma (strip ''AB12,JFK,LAX,2024-05-01 10:00,2024-05-01 14:00,250'') =
     [''AB12'', ''JFK'', ''LAX'', ''2024-05-01 10:00'', ''2024-05-01 14:00'', ''250'']"
  "split_comma (strip ''AB12,JFK,LAX,2024-05-01 10:00,2024-05-01 14:00,inf'') =
     [''AB12'', ''JFK'', ''LAX'', ''2024-05-01 10:00'', ''2024-05-01 14:00'', ''inf'']"
  "split_comma (strip ''AB12,JFK,LAX,2024-05-01 10:00,2024-05-01 14:00,nan'') =
     [''AB12'', ''JFK'', ''LAX'', ''2024-05-01 10:00'', ''2024-05-01 14:00'', ''nan'']"
  "split_comma (strip ''AB12,A1B,LAX,2024-05-01 10:00,2024-05-01 14:00,250'') =
     [''AB12'', ''A1B'', ''LAX'', ''2024-05-01 10:00'', ''2024-05-01 14:00'', ''250'']"
  "split_comma (strip ''AB12,JFK,JFK,2024-5-1 9:05,2024-5-1 14:00,250'') =
     [''AB12'', ''JFK'', ''JFK'', ''2024-5-1 9:05'', ''2024-5-1 14:00'', ''250'']"
  "split_comma (strip ''A,jfk,XXX,2024-05-01 14:00,2024-05-01 10:00,-1'') =
     [''A'', ''jfk'', ''XXX'', ''2024-05-01 14:00'', ''2024-05-01 10:00'', ''-1'']"
  by (simp_all add: strip_def char_eval)

lemma strip_examples:
  "strip ''flight_id,origin,destination,departure_datetime,arrival_datetime,price'' =
     ''flight_id,origin,destination,departure_datetime,arrival_datetime,price''"
  "strip ''# spring schedule'' = ''# spring schedule''"
  "strip ''   '' = []"
  "strip ''AB12,JFK,LAX,2024-05-01 10:00,2024-05-01 14:00,250'' =
     ''AB12,JFK,LAX,2024-05-01 10:00,2024-05-01 14:00,250''"
  "strip ''A,jfk,XXX,2024-05-01 14:00,2024-05-01 10:00,-1'' =
     ''A,jfk,XXX,2024-05-01 14:00,2024-05-01 10:00,-1''"
  "strip ''AB12,JFK,LAX'' = ''AB12,JFK,LAX''"
  by (simp_all add: strip_def char_eval)

section \<open>Properties of the validator\<close>

subsection \<open>The reasons collected for a line\<close>

lemma reasons_Cons:
  "map snd (filter fst ((c, r) # xs)) = (if c then [r] else []) @ map snd (filter fst xs)"
  by simp

lemma reasons_Nil: "map snd (filter fst []) = []"
  by simp

lemma check_airport_reason:
  "(case check_airport code field_name of Some m \<Rightarrow> [m] | None \<Rightarrow> []) =
     (if check_airport code field_name \<noteq> None then [''invalid '' @ field_name @ '' code'']
      else [])"
  by (simp add: check_airport_def)

lemma field_reasons_eq:
  "field_reasons fid org dst dep_str arr_str price_str =
     applicable_reasons fid org dst dep_str arr_str price_str"
proof -
  have 2: "(case check_airport org ''origin'' of Some m \<Rightarrow> [m] | None \<Rightarrow> []) =
      (if check_airport org ''origin'' \<noteq> None then [''invalid origin code''] else [])"
    using check_airport_reason [of org "''origin''"] by simp
  have 3: "(case check_airport dst ''destination'' of Some m \<Rightarrow> [m] | None \<Rightarrow> []) =
      (if check_airport dst ''destination'' \<noteq> None then [''invalid destination code''] else [])"
    using check_airport_reason [of dst "''destination''"] by simp
  have 4: "(case strptime dep_str of None \<Rightarrow> [''invalid departure datetime''] | Some _ \<Rightarrow> []) =
      (if strptime dep_str = None then [''invalid departure datetime''] else [])"
    by (cases "strptime dep_str") simp_all
  have 5: "(case strptime arr_str of None \<Rightarrow> [''invalid arrival datetime''] | Some _ \<Rightarrow> []) =
      (if strptime arr_str = None then [''invalid arrival datetime''] else [])"
    by (cases "strptime arr_str") simp_all
  have 6: "(case (strptime dep_str, strptime arr_str) of
        (Some d, Some a) \<Rightarrow> if a \<le> d then [''arrival before departure''] else []
      | _ \<Rightarrow> []) =
      (if (case (strptime dep_str, strptime arr_str) of
           (Some d, Some a) \<Rightarrow> a \<le> d | _ \<Rightarrow> False) then [''arrival before departure'']
       else [])"
    by (cases "strptime dep_str"; cases "strptime arr_str") simp_all
  have 7: "(case py_float price_str of
        Some p \<Rightarrow> if float_le p (Finite 0) then [''negative price value''] else []
      | None \<Rightarrow> [''invalid price'']) =
      (if py_float price_str = None then [''invalid price''] else [])
      @ (if (case py_float price_str of Some p \<Rightarrow> float_le p (Finite 0) | None \<Rightarrow> False)
         then [''negative price value''] else []) @ []"
    by (cases "py_float price_str") simp_all
  show ?thesis
    unfolding field_reasons_def applicable_reasons_def Let_def append_Nil append_assoc
      2 3 4 5 6 7 reasons_Cons reasons_Nil ..
qed

lemma field_reasons_Nil:
  "field_reasons fid org dst dep_str arr_str price_str = [] \<longleftrightarrow>
     flight_id_ok fid \<and> check_airport org ''origin'' = None
     \<and> check_airport dst ''destination'' = None
     \<and> (case (strptime dep_str, strptime arr_str) of
          (Some d, Some a) \<Rightarrow> d < a | _ \<Rightarrow> False)
     \<and> (case py_float price_str of Some p \<Rightarrow> \<not> float_le p (Finite 0) | None \<Rightarrow> False)"
  unfolding field_reasons_eq applicable_reasons_def reasons_Cons reasons_Nil
    append_is_Nil_conv
  by (cases "strptime dep_str"; cases "strptime arr_str"; cases "py_float price_str") auto

lemma field_reasons_float:
  "field_reasons fid org dst dep_str arr_str price_str = [] \<Longrightarrow>
     \<exists>p. py_float price_str = Some p \<and> \<not> float_le p (Finite 0)"
  unfolding field_reasons_Nil by (cases "py_float price_str") auto

lemma in_reasons: "r \<in> set (map snd (filter fst L)) \<longleftrightarrow> (True, r) \<in> set L"
  by force

lemma applicable_reasons_vocabulary:
  assumes "r \<in> set (applicable_reasons fid org dst dep_str arr_str price_str)"
  shows "r \<noteq> [] \<and> hd r \<noteq> CHR ''c''"
proof -
  from assms have "r \<in> {''invalid flight_id'', ''invalid origin code'',
      ''invalid destination code'', ''invalid departure datetime'',
      ''invalid arrival datetime'', ''arrival before departure'', ''invalid price'',
      ''negative price value''}"
    unfolding applicable_reasons_def in_reasons by auto
  then show ?thesis by auto
qed

lemma hd_join: "x \<noteq> [] \<Longrightarrow> hd (join sep (x # xs)) = hd x"
  by (cases xs) auto

lemma join_not_notice:
  assumes "applicable_reasons fid org dst dep_str arr_str price_str \<noteq> []"
  shows "join '', '' (applicable_reasons fid org dst dep_str arr_str price_str)
    \<noteq> ''comment line, ignored for data parsing''"
proof -
  from assms obtain r rs
    where rs: "applicable_reasons fid org dst dep_str arr_str price_str = r # rs"
    by (cases "applicable_reasons fid org dst dep_str arr_str price_str") auto
  then have "r \<in> set (applicable_reasons fid org dst dep_str arr_str price_str)" by simp
  from applicable_reasons_vocabulary [OF this] have r: "r \<noteq> []" "hd r \<noteq> CHR ''c''" by auto
  from hd_join [OF r(1)] r(2) have "hd (join '', '' (r # rs)) \<noteq> CHR ''c''" by simp
  then show ?thesis unfolding rs by auto
qed

subsection \<open>The outcome of one line\<close>

lemma split_comma_not_Nil: "split_comma s \<noteq> []"
  by (induction s) (auto split: list.splits)

lemma hd_split_comma: "hd (split_comma s) = takeWhile (\<lambda>c. c \<noteq> CHR '','') s"
  using split_comma_not_Nil by (induction s) (auto split: list.splits)

lemma startswith_Nil: "\<not> startswith [] (p # ps)"
  by (simp add: startswith_def)

lemma startswith_Cons: "startswith (c # cs) (p # ps) \<longleftrightarrow> c = p \<and> startswith cs ps"
  by (simp add: startswith_def)

lemma not_comment_and_header:
  "startswith line ''#'' \<Longrightarrow> \<not> startswith line ''flight_id''"
  by (cases line) (simp_all add: startswith_Nil startswith_Cons)

lemma process_line_blank: "strip raw = [] \<Longrightarrow> process_line n raw = Skipped"
  by (simp add: process_line_def)

lemma process_line_comment:
  assumes "startswith (strip raw) ''#''"
  shows "process_line n raw = Notice \<lparr>entry_line = n, entry_text = strip raw,
       entry_reason = ''comment line, ignored for data parsing''\<rparr>"
proof -
  from assms have "strip raw \<noteq> []" by (auto simp: startswith_Nil)
  with assms show ?thesis by (simp add: process_line_def)
qed

lemma process_line_header:
  assumes "startswith (strip raw) ''flight_id''"
  shows "process_line n raw = Skipped"
proof -
  from assms not_comment_and_header have "\<not> startswith (strip raw) ''#''" by blast
  with assms show ?thesis by (simp add: process_line_def Let_def)
qed

lemma process_line_data:
  assumes "strip raw \<noteq> []" "\<not> startswith (strip raw) ''#''"
    "\<not> startswith (strip raw) ''flight_id''"
  shows "process_line n raw =
    (if length (split_comma (strip raw)) \<noteq> 6 then
       Rejected \<lparr>entry_line = n, entry_text = strip raw,
         entry_reason = ''missing required fields''\<rparr>
     else if field_reasons (split_comma (strip raw) ! 0) (split_comma (strip raw) ! 1)
         (split_comma (strip raw) ! 2) (split_comma (strip raw) ! 3)
         (split_comma (strip raw) ! 4) (split_comma (strip raw) ! 5) = []
     then
       (case py_float (split_comma (strip raw) ! 5) of
          None \<Rightarrow> Raised ValueError
        | Some p \<Rightarrow>
            Accepted \<lparr>flight_id = split_comma (strip raw) ! 0,
              origin = split_comma (strip raw) ! 1,
              destination = split_comma (strip raw) ! 2,
              departure_datetime = split_comma (strip raw) ! 3,
              arrival_datetime = split_comma (strip raw) ! 4, price = p\<rparr>)
     else Rejected \<lparr>entry_line = n, entry_text = strip raw,
       entry_reason = join '', '' (field_reasons (split_comma (strip raw) ! 0)
         (split_comma (strip raw) ! 1) (split_comma (strip raw) ! 2)
         (split_comma (strip raw) ! 3) (split_comma (strip raw) ! 4)
         (split_comma (strip raw) ! 5))\<rparr>)"
  unfolding process_line_def Let_def using assms by simp

lemma process_line_cases:
  obtains (blank) "strip raw = []" "process_line n raw = Skipped"
  | (comment) "startswith (strip raw) ''#''"
      "process_line n raw = Notice \<lparr>entry_line = n, entry_text = strip raw,
         entry_reason = ''comment line, ignored for data parsing''\<rparr>"
  | (header) "startswith (strip raw) ''flight_id''" "process_line n raw = Skipped"
  | (short) "strip raw \<noteq> []" "\<not> startswith (strip raw) ''#''"
      "\<not> startswith (strip raw) ''flight_id''" "length (split_comma (strip raw)) \<noteq> 6"
      "process_line n raw = Rejected \<lparr>entry_line = n, entry_text = strip raw,
         entry_reason = ''missing required fields''\<rparr>"
  | (accepted) p where "strip raw \<noteq> []" "\<not> startswith (strip raw) ''#''"
      "\<not> startswith (strip raw) ''flight_id''" "length (split_comma (strip raw)) = 6"
      "field_reasons (split_comma (strip raw) ! 0) (split_comma (strip raw) ! 1)
         (split_comma (strip raw) ! 2) (split_comma (strip raw) ! 3)
         (split_comma (strip raw) ! 4) (split_comma (strip raw) ! 5) = []"
      "py_float (split_comma (strip raw) ! 5) = Some p"
      "process_line n raw = Accepted \<lparr>flight_id = split_comma (strip raw) ! 0,
         origin = split_comma (strip raw) ! 1, destination = split_comma (strip raw) ! 2,
         departure_datetime = split_comma (strip raw) ! 3,
         arrival_datetime = split_comma (strip raw) ! 4, price = p\<rparr>"
  | (rejected) "strip raw \<noteq> []" "\<not> startswith (strip raw) ''#''"
      "\<not> startswith (strip raw) ''flight_id''" "length (split_comma (strip raw)) = 6"
      "field_reasons (split_comma (strip raw) ! 0) (split_comma (strip raw) ! 1)
         (split_comma (strip raw) ! 2) (split_comma (strip raw) ! 3)
         (split_comma (strip raw) ! 4) (split_comma (strip raw) ! 5) \<noteq> []"
      "process_line n raw = Rejected \<lparr>entry_line = n, entry_text = strip raw,
         entry_reason = join '', '' (field_reasons (split_comma (strip raw) ! 0)
           (split_comma (strip raw) ! 1) (split_comma (strip raw) ! 2)
           (split_comma (strip raw) ! 3) (split_comma (strip raw) ! 4)
           (split_comma (strip raw) ! 5))\<rparr>"
proof (cases "strip raw = []")
  case True
  with process_line_blank [of raw n] blank show ?thesis by blast
next
  case ne: False
  show ?thesis
  proof (cases "startswith (strip raw) ''#''")
    case True
    with process_line_comment [of raw n] comment show ?thesis by blast
  next
    case nc: False
    show ?thesis
    proof (cases "startswith (strip raw) ''flight_id''")
      case True
      with process_line_header [of raw n] header show ?thesis by blast
    next
      case nh: False
      note d = process_line_data [OF ne nc nh, of n]
      show ?thesis
      proof (cases "length (split_comma (strip raw)) = 6")
        case False
        with d have "process_line n raw = Rejected \<lparr>entry_line = n, entry_text = strip raw,
            entry_reason = ''missing required fields''\<rparr>" by simp
        with short ne nc nh False show ?thesis by blast
      next
        case six: True
        show ?thesis
        proof (cases "field_reasons (split_comma (strip raw) ! 0) (split_comma (strip raw) ! 1)
          (split_comma (strip raw) ! 2) (split_comma (strip raw) ! 3)
          (split_comma (strip raw) ! 4) (split_comma (strip raw) ! 5) = []")
          case True
          from field_reasons_float [OF True] obtain p
            where p: "py_float (split_comma (strip raw) ! 5) = Some p" by blast
          from d six True p have "process_line n raw =
              Accepted \<lparr>flight_id = split_comma (strip raw) ! 0,
                origin = split_comma (strip raw) ! 1, destination = split_comma (strip raw) ! 2,
                departure_datetime = split_comma (strip raw) ! 3,
                arrival_datetime = split_comma (strip raw) ! 4, price = p\<rparr>"
            by simp
          with accepted [OF ne nc nh six True p] show ?thesis by blast
        next
          case False
          from d six False have "process_line n raw =
              Rejected \<lparr>entry_line = n, entry_text = strip raw,
                entry_reason = join '', '' (field_reasons (split_comma (strip raw) ! 0)
                  (split_comma (strip raw) ! 1) (split_comma (strip raw) ! 2)
                  (split_comma (strip raw) ! 3) (split_comma (strip raw) ! 4)
                  (split_comma (strip raw) ! 5))\<rparr>"
            by simp
          with rejected [OF ne nc nh six False] show ?thesis by blast
        qed
      qed
    qed
  qed
qed

lemma process_line_not_Raised: "process_line n raw \<noteq> Raised x"
  by (cases rule: process_line_cases [of raw n]) simp_all

lemma process_line_accepted_invariants:
  assumes "process_line n raw = Accepted f"
  shows "flight_id_ok (flight_id f) \<and> check_airport (origin f) ''origin'' = None
    \<and> check_airport (destination f) ''destination'' = None
    \<and> (case (strptime (departure_datetime f), strptime (arrival_datetime f)) of
         (Some d, Some a) \<Rightarrow> d < a | _ \<Rightarrow> False)
    \<and> \<not> float_le (price f) (Finite 0)"
proof (cases rule: process_line_cases [of raw n])
  case (accepted p)
  from accepted(7) assms have f: "f = \<lparr>flight_id = split_comma (strip raw) ! 0,
      origin = split_comma (strip raw) ! 1, destination = split_comma (strip raw) ! 2,
      departure_datetime = split_comma (strip raw) ! 3,
      arrival_datetime = split_comma (strip raw) ! 4, price = p\<rparr>" by simp
  from accepted(5) accepted(6) show ?thesis
    unfolding field_reasons_Nil f by simp
qed (use assms in simp_all)

lemma rejected_is_rejection:
  assumes "process_line n raw = Rejected e"
  shows "is_rejection e"
proof (cases rule: process_line_cases [of raw n])
  case short
  with assms show ?thesis by (auto simp: is_rejection_def)
next
  case rejected
  from rejected(5) have "applicable_reasons (split_comma (strip raw) ! 0)
      (split_comma (strip raw) ! 1) (split_comma (strip raw) ! 2)
      (split_comma (strip raw) ! 3) (split_comma (strip raw) ! 4)
      (split_comma (strip raw) ! 5) \<noteq> []"
    by (simp add: field_reasons_eq)
  from join_not_notice [OF this] rejected(6) assms show ?thesis
    by (auto simp: is_rejection_def field_reasons_eq)
qed (use assms in simp_all)

lemma data_line_of_flight_id:
  assumes "split_comma line = fid # rest" and "flight_id_ok fid"
  shows "line \<noteq> [] \<and> \<not> startswith line ''#'' \<and> \<not> startswith line ''flight_id''"
proof -
  have fid: "fid = takeWhile (\<lambda>c. c \<noteq> CHR '','') line"
    using hd_split_comma [of line] assms(1) by simp
  have 1: "line \<noteq> []"
  proof
    assume "line = []"
    with fid assms(2) show False by (simp add: flight_id_ok_def)
  qed
  have 2: "\<not> startswith line ''#''"
  proof
    assume "startswith line ''#''"
    then obtain cs where "line = CHR ''#'' # cs"
      by (cases line) (auto simp: startswith_Nil startswith_Cons)
    with fid have "fid = CHR ''#'' # takeWhile (\<lambda>c. c \<noteq> CHR '','') cs" by simp
    with assms(2) show False
      by (simp add: flight_id_ok_def isalnum_def isalnum_char_def isupper_char_def
          islower_char_def isdecimal_def ord_def)
  qed
  have 3: "\<not> startswith line ''flight_id''"
  proof
    assume "startswith line ''flight_id''"
    then have "take (length ''flight_id'') line = ''flight_id''"
      unfolding startswith_def .
    then obtain rest where "line = ''flight_id'' @ rest" by (metis append_take_drop_id)
    then have "fid = takeWhile (\<lambda>c. c \<noteq> CHR '','') (''flight_id'' @ rest)"
      using fid by simp
    also have "\<dots> = ''flight_id'' @ takeWhile (\<lambda>c. c \<noteq> CHR '','') rest"
      by (rule takeWhile_append2) auto
    finally have "9 \<le> length fid" by simp
    with assms(2) show False by (simp add: flight_id_ok_def)
  qed
  from 1 2 3 show ?thesis by blast
qed

subsection \<open>The loop over the lines\<close>

lemma parse_lines_count:
  "\<exists>vs' es'. parse_lines n lines vs es = Inr (vs', es')
     \<and> length vs' + length (filter is_rejection es') + length (filter blank_line lines)
         + length (filter comment_line lines) + length (filter header_line lines)
       = length vs + length (filter is_rejection es) + length lines"
proof (induction lines arbitrary: n vs es)
  case Nil
  show ?case by simp
next
  case (Cons raw lines)
  show ?case
  proof (cases rule: process_line_cases [of raw n])
    case blank
    then have "blank_line raw" "\<not> comment_line raw" "\<not> header_line raw"
      by (simp_all add: blank_line_def comment_line_def header_line_def startswith_Nil)
    with blank(2) Cons.IH [of "Suc n" vs es] show ?thesis by simp
  next
    case comment
    then have k: "\<not> blank_line raw" "comment_line raw" "\<not> header_line raw"
      using not_comment_and_header [of "strip raw"]
      by (auto simp: blank_line_def comment_line_def header_line_def startswith_Nil)
    have "\<not> is_rejection \<lparr>entry_line = n, entry_text = strip raw,
        entry_reason = ''comment line, ignored for data parsing''\<rparr>"
      by (simp add: is_rejection_def)
    with k comment(2) Cons.IH [of "Suc n" vs "es @ [\<lparr>entry_line = n, entry_text = strip raw,
        entry_reason = ''comment line, ignored for data parsing''\<rparr>]"]
    show ?thesis by simp
  next
    case header
    then have "\<not> blank_line raw" "\<not> comment_line raw" "header_line raw"
      using not_comment_and_header [of "strip raw"]
      by (auto simp: blank_line_def comment_line_def header_line_def startswith_Nil)
    with header(2) Cons.IH [of "Suc n" vs es] show ?thesis by simp
  next
    case short
    then have k: "\<not> blank_line raw" "\<not> comment_line raw" "\<not> header_line raw"
      by (simp_all add: blank_line_def comment_line_def header_line_def)
    from rejected_is_rejection [OF short(5)] k short(5)
      Cons.IH [of "Suc n" vs "es @ [\<lparr>entry_line = n, entry_text = strip raw,
        entry_reason = ''missing required fields''\<rparr>]"]
    show ?thesis by simp
  next
    case (accepted p)
    then have k: "\<not> blank_line raw" "\<not> comment_line raw" "\<not> header_line raw"
      by (simp_all add: blank_line_def comment_line_def header_line_def)
    from k accepted(7) Cons.IH [of "Suc n" "vs @ [\<lparr>flight_id = split_comma (strip raw) ! 0,
         origin = split_comma (strip raw) ! 1, destination = split_comma (strip raw) ! 2,
         departure_datetime = split_comma (strip raw) ! 3,
         arrival_datetime = split_comma (strip raw) ! 4, price = p\<rparr>]" es]
    show ?thesis by simp
  next
    case rejected
    then have k: "\<not> blank_line raw" "\<not> comment_line raw" "\<not> header_line raw"
      by (simp_all add: blank_line_def comment_line_def header_line_def)
    obtain e where e: "process_line n raw = Rejected e" using rejected(6) by blast
    from rejected_is_rejection [OF e] k e Cons.IH [of "Suc n" vs "es @ [e]"]
    show ?thesis by simp
  qed
qed

lemma parse_lines_accepted:
  "parse_lines n lines vs es = Inr (vs', es') \<Longrightarrow> f \<in> set vs' \<Longrightarrow>
     f \<in> set vs \<or> (\<exists>i raw. raw \<in> set lines \<and> process_line i raw = Accepted f)"
proof (induction lines arbitrary: n vs es)
  case Nil
  then show ?case by simp
next
  case (Cons raw lines)
  show ?case
  proof (cases "process_line n raw")
    case Skipped
    with Cons.prems Cons.IH [of "Suc n" vs es] show ?thesis by auto
  next
    case (Notice e)
    with Cons.prems Cons.IH [of "Suc n" vs "es @ [e]"] show ?thesis by auto
  next
    case (Rejected e)
    with Cons.prems Cons.IH [of "Suc n" vs "es @ [e]"] show ?thesis by auto
  next
    case (Accepted g)
    with Cons.prems Cons.IH [of "Suc n" "vs @ [g]" es] show ?thesis by auto
  next
    case (Raised x)
    with Cons.prems show ?thesis by simp
  qed
qed

lemma accepted_line:
  assumes "split_comma (strip raw) = [fid, org, dst, dep_str, arr_str, price_str]"
    and "flight_id_ok fid"
    and "check_airport org ''origin'' = None" and "check_airport dst ''destination'' = None"
    and "strptime dep_str = Some d" and "strptime arr_str = Some a" and "d < a"
    and "py_float price_str = Some p" and "\<not> float_le p (Finite 0)"
  shows "process_line n raw = Accepted \<lparr>flight_id = fid, origin = org, destination = dst,
    departure_datetime = dep_str, arrival_datetime = arr_str, price = p\<rparr>"
proof -
  from data_line_of_flight_id [OF assms(1,2)]
  have line: "strip raw \<noteq> []" "\<not> startswith (strip raw) ''#''"
    "\<not> startswith (strip raw) ''flight_id''" by simp_all
  have "field_reasons fid org dst dep_str arr_str price_str = []"
    unfolding field_reasons_Nil using assms(2-9) by simp
  with process_line_data [OF line, of n] assms(1,8) show ?thesis by simp
qed

lemma rejected_line:
  assumes "\<not> blank_line raw" and "\<not> comment_line raw" and "\<not> header_line raw"
    and "split_comma (strip raw) = [fid, org, dst, dep_str, arr_str, price_str]"
    and "applicable_reasons fid org dst dep_str arr_str price_str \<noteq> []"
  shows "process_line n raw = Rejected \<lparr>entry_line = n, entry_text = strip raw,
    entry_reason = join '', '' (applicable_reasons fid org dst dep_str arr_str price_str)\<rparr>"
proof -
  from assms(1-3) have line: "strip raw \<noteq> []" "\<not> startswith (strip raw) ''#''"
    "\<not> startswith (strip raw) ''flight_id''"
    by (simp_all add: blank_line_def comment_line_def header_line_def)
  from process_line_data [OF line, of n] assms(4,5) show ?thesis
    by (simp add: field_reasons_eq)
qed

lemma parse_single:
  "process_line 1 raw = Accepted f \<Longrightarrow> parse_csv_file [raw] = Inr ([f], [])"
  by (simp add: parse_csv_file_def)

lemma example_order:
  "(2024, 5, 1, 10, 0) < ((2024, 5, 1, 14, 0) :: datetime)"
  "(2024, 5, 1, 9, 5) < ((2024, 5, 1, 14, 0) :: datetime)"
  by simp_all

lemma example_accepted_valid:
  "process_line n ''AB12,JFK,LAX,2024-05-01 10:00,2024-05-01 14:00,250'' =
     Accepted \<lparr>flight_id = ''AB12'', origin = ''JFK'', destination = ''LAX'',
       departure_datetime = ''2024-05-01 10:00'', arrival_datetime = ''2024-05-01 14:00'',
       price = Finite 250\<rparr>"
  by (rule accepted_line [OF split_examples(1) field_examples(1,3,5) strptime_examples(1,2)
        example_order(1) py_float_examples(1)]) simp

lemma example_accepted_inf:
  "process_line n ''AB12,JFK,LAX,2024-05-01 10:00,2024-05-01 14:00,inf'' =
     Accepted \<lparr>flight_id = ''AB12'', origin = ''JFK'', destination = ''LAX'',
       departure_datetime = ''2024-05-01 10:00'', arrival_datetime = ''2024-05-01 14:00'',
       price = PosInf\<rparr>"
  by (rule accepted_line [OF split_examples(2) field_examples(1,3,5) strptime_examples(1,2)
        example_order(1) py_float_examples(2)]) simp

lemma example_accepted_nan:
  "process_line n ''AB12,JFK,LAX,2024-05-01 10:00,2024-05-01 14:00,nan'' =
     Accepted \<lparr>flight_id = ''AB12'', origin = ''JFK'', destination = ''LAX'',
       departure_datetime = ''2024-05-01 10:00'', arrival_datetime = ''2024-05-01 14:00'',
       price = NaN\<rparr>"
  by (rule accepted_line [OF split_examples(3) field_examples(1,3,5) strptime_examples(1,2)
        example_order(1) py_float_examples(3)]) simp

lemma example_accepted_a1b:
  "process_line n ''AB12,A1B,LAX,2024-05-01 10:00,2024-05-01 14:00,250'' =
     Accepted \<lparr>flight_id = ''AB12'', origin = ''A1B'', destination = ''LAX'',
       departure_datetime = ''2024-05-01 10:00'', arrival_datetime = ''2024-05-01 14:00'',
       price = Finite 250\<rparr>"
  by (rule accepted_line [OF split_examples(4) field_examples(1,6,5) strptime_examples(1,2)
        example_order(1) py_float_examples(1)]) simp

lemma example_accepted_same:
  "process_line n ''AB12,JFK,JFK,2024-5-1 9:05,2024-5-1 14:00,250'' =
     Accepted \<lparr>flight_id = ''AB12'', origin = ''JFK'', destination = ''JFK'',
       departure_datetime = ''2024-5-1 9:05'', arrival_datetime = ''2024-5-1 14:00'',
       price = Finite 250\<rparr>"
  by (rule accepted_line [OF split_examples(5) field_examples(1,3,4) strptime_examples(5,6)
        example_order(2) py_float_examples(1)]) simp

lemmas example_lines_accepted = example_accepted_valid example_accepted_inf
  example_accepted_nan example_accepted_a1b example_accepted_same

lemma example_reasons:
  "applicable_reasons ''A'' ''jfk'' ''XXX'' ''2024-05-01 14:00'' ''2024-05-01 10:00'' ''-1'' =
     [''invalid flight_id'', ''invalid origin code'', ''invalid destination code'',
      ''arrival before departure'', ''negative price value'']"
  by (simp add: applicable_reasons_def field_examples strptime_examples py_float_examples)

lemma example_data_lines:
  "\<not> blank_line ''AB12,JFK,LAX,2024-05-01 10:00,2024-05-01 14:00,250''"
  "\<not> comment_line ''AB12,JFK,LAX,2024-05-01 10:00,2024-05-01 14:00,250''"
  "\<not> header_line ''AB12,JFK,LAX,2024-05-01 10:00,2024-05-01 14:00,250''"
  "\<not> blank_line ''A,jfk,XXX,2024-05-01 14:00,2024-05-01 10:00,-1''"
  "\<not> comment_line ''A,jfk,XXX,2024-05-01 14:00,2024-05-01 10:00,-1''"
  "\<not> header_line ''A,jfk,XXX,2024-05-01 14:00,2024-05-01 10:00,-1''"
  "\<not> blank_line ''AB12,JFK,LAX''"
  "\<not> comment_line ''AB12,JFK,LAX''"
  "\<not> header_line ''AB12,JFK,LAX''"
  by (simp_all add: blank_line_def comment_line_def header_line_def strip_examples
      startswith_def)

lemma example_line_rejected:
  "process_line n ''A,jfk,XXX,2024-05-01 14:00,2024-05-01 10:00,-1'' =
     Rejected \<lparr>entry_line = n,
       entry_text = ''A,jfk,XXX,2024-05-01 14:00,2024-05-01 10:00,-1'',
       entry_reason = ''invalid flight_id, invalid origin code, invalid destination code, arrival before departure, negative price value''\<rparr>"
  using rejected_line [OF example_data_lines(4,5,6) split_examples(6), of n]
  by (simp add: example_reasons strip_examples)

lemma example_other_lines:
  "process_line n ''flight_id,origin,destination,departure_datetime,arrival_datetime,price'' =
     Skipped"
  "process_line n ''# spring schedule'' = Notice \<lparr>entry_line = n,
     entry_text = ''# spring schedule'',
     entry_reason = ''comment line, ignored for data parsing''\<rparr>"
  "process_line n ''   '' = Skipped"
  "process_line n ''AB12,JFK,LAX'' = Rejected \<lparr>entry_line = n, entry_text = ''AB12,JFK,LAX'',
     entry_reason = ''missing required fields''\<rparr>"
  by (simp_all add: process_line_def strip_examples startswith_def Let_def)

section \<open>Properties of the query loop\<close>

lemma check_key_conj:
  "check_key f k v ok = (case check_key f k v True of Inl e \<Rightarrow> Inl e | Inr b \<Rightarrow> Inr (ok \<and> b))"
  by (cases ok) (auto simp: check_key_def split: sum.splits)

lemma match_items_conj:
  "match_items f items ok =
     (case match_items f items True of Inl e \<Rightarrow> Inl e | Inr b \<Rightarrow> Inr (ok \<and> b))"
proof (induction items arbitrary: ok)
  case Nil
  show ?case by simp
next
  case (Cons kv items)
  obtain k v where kv: "kv = (k, v)" by (cases kv)
  show ?case
  proof (cases "check_key f k v True")
    case (Inl e)
    then show ?thesis using check_key_conj [of f k v ok] by (simp add: kv)
  next
    case (Inr b)
    then have "check_key f k v ok = Inr (ok \<and> b)"
      using check_key_conj [of f k v ok] by simp
    then show ?thesis
      using Inr Cons.IH [of "ok \<and> b"] Cons.IH [of b]
      by (auto simp: kv split: sum.splits)
  qed
qed

lemma match_items_all:
  "match_items f items ok = Inr True \<Longrightarrow> (k, v) \<in> set items \<Longrightarrow>
     check_key f k v True = Inr True"
proof (induction items arbitrary: ok)
  case Nil
  then show ?case by simp
next
  case (Cons kv items)
  obtain k' v' where kv: "kv = (k', v')" by (cases kv)
  from Cons.prems(1) obtain b where b: "check_key f k' v' ok = Inr b"
    and rest: "match_items f items b = Inr True"
    by (auto simp: kv split: sum.splits)
  from rest match_items_conj [of f items b] have "b" by (auto split: sum.splits)
  with b check_key_conj [of f k' v' ok] have "check_key f k' v' True = Inr True"
    by (auto split: sum.splits)
  with Cons.IH [OF rest] Cons.prems(2) kv show ?case by auto
qed


lemma query_matches_total:
  "\<forall>f\<in>set db. \<not> isl (match_flight f q) \<Longrightarrow>
     query_matches db q acc = Inr (acc @ filter (\<lambda>f. match_flight f q = Inr True) db)"
proof (induction db arbitrary: acc)
  case Nil
  then show ?case by simp
next
  case (Cons f db)
  then show ?case by (cases "match_flight f q") auto
qed



lemma run_queries_single:
  "query_matches db (JObject items) [] = Inr ms \<Longrightarrow>
     run_queries db (JObject items) = Inr [\<lparr>query = JObject items, matches = ms\<rparr>]"
  by (simp add: run_queries_def)

lemma check_key_bad:
  "k = ''departure_datetime'' \<or> k = ''arrival_datetime'' \<Longrightarrow> isl (to_dt v) \<Longrightarrow>
     isl (check_key f k v ok)"
  by (auto simp: check_key_def split: sum.splits)

lemma match_items_bad:
  "(k, v) \<in> set items \<Longrightarrow> k = ''departure_datetime'' \<or> k = ''arrival_datetime'' \<Longrightarrow>
     isl (to_dt v) \<Longrightarrow> isl (match_items f items ok)"
proof (induction items arbitrary: ok)
  case Nil
  then show ?case by simp
next
  case (Cons kv items)
  obtain k' v' where kv: "kv = (k', v')" by (cases kv)
  show ?case
  proof (cases "check_key f k' v' ok")
    case (Inl e)
    then show ?thesis by (simp add: kv)
  next
    case (Inr b)
    with check_key_bad [OF Cons.prems(2,3), of f ok] have "\<not> (k = k' \<and> v = v')" by auto
    with Cons.prems(1) kv have "(k, v) \<in> set items" by auto
    from Cons.IH [OF this Cons.prems(2,3)] Inr show ?thesis by (simp add: kv)
  qed
qed

lemma query_loop_bad:
  "q \<in> set qs \<Longrightarrow> isl (query_matches db q []) \<Longrightarrow> isl (query_loop db qs acc)"
proof (induction qs arbitrary: acc)
  case Nil
  then show ?case by simp
next
  case (Cons q' qs)
  then show ?case by (cases "query_matches db q' []") auto
qed



lemma to_dt_str: "strptime s = Some t \<Longrightarrow> to_dt (JStr s) = Inr t"
  by (simp add: to_dt_def)

lemma check_key_departure:
  "strptime s = Some t \<Longrightarrow> strptime (departure_datetime f) = Some d \<Longrightarrow>
     check_key f ''departure_datetime'' (JStr s) ok = Inr (ok \<and> t \<le> d)"
  by (auto simp: check_key_def to_dt_str)

section \<open>The claims\<close>

subsection \<open>C1: what holds of every accepted record\<close>

text \<open>
  Claim C1, as the code has it. Every record that \<^verbatim>\<open>parse_csv_file\<close> puts in the
  accepted list passes the flight id test and both airport code checks, both of its
  timestamps parse, its arrival is strictly later than its departure, and its price is a
  parsed float for which the test \<^verbatim>\<open>price <= 0\<close> is false. Nothing requires the price to
  be finite.
\<close>

theorem accepted_records_invariants:
  assumes "parse_csv_file lines = Inr (valid_flights, error_entries)"
    and "f \<in> set valid_flights"
  shows "flight_id_ok (flight_id f) \<and> check_airport (origin f) ''origin'' = None
    \<and> check_airport (destination f) ''destination'' = None
    \<and> (case (strptime (departure_datetime f), strptime (arrival_datetime f)) of
         (Some d, Some a) \<Rightarrow> d < a | _ \<Rightarrow> False)
    \<and> \<not> float_le (price f) (Finite 0)"
proof -
  from parse_lines_accepted [OF assms(1) [unfolded parse_csv_file_def] assms(2)]
  obtain i raw where "process_line i raw = Accepted f" by auto
  then show ?thesis by (rule process_line_accepted_invariants)
qed

text \<open>Claim C1, the theorem at a file of one valid line.\<close>

theorem accepted_records_invariants_witness:
  "parse_csv_file [''AB12,JFK,LAX,2024-05-01 10:00,2024-05-01 14:00,250''] =
     Inr ([\<lparr>flight_id = ''AB12'', origin = ''JFK'', destination = ''LAX'',
       departure_datetime = ''2024-05-01 10:00'', arrival_datetime = ''2024-05-01 14:00'',
       price = Finite 250\<rparr>], [])
   \<and> flight_id_ok ''AB12'' \<and> check_airport ''JFK'' ''origin'' = None
   \<and> check_airport ''LAX'' ''destination'' = None
   \<and> (case (strptime ''2024-05-01 10:00'', strptime ''2024-05-01 14:00'') of
        (Some d, Some a) \<Rightarrow> d < a | _ \<Rightarrow> False)
   \<and> \<not> float_le (Finite 250) (Finite 0)"
proof -
  note h = parse_single [OF example_lines_accepted(1)]
  from accepted_records_invariants [OF h, of "\<lparr>flight_id = ''AB12'', origin = ''JFK'',
      destination = ''LAX'', departure_datetime = ''2024-05-01 10:00'',
      arrival_datetime = ''2024-05-01 14:00'', price = Finite 250\<rparr>"] h
  show ?thesis by simp
qed

text \<open>
  Claim C1 as stated fails: a line whose price field is \<^verbatim>\<open>inf\<close> is accepted, and the
  stored price is positive infinity, which is no finite number.
\<close>

theorem accepted_records_invariants_counterexample:
  "parse_csv_file [''AB12,JFK,LAX,2024-05-01 10:00,2024-05-01 14:00,inf''] =
     Inr ([\<lparr>flight_id = ''AB12'', origin = ''JFK'', destination = ''LAX'',
       departure_datetime = ''2024-05-01 10:00'', arrival_datetime = ''2024-05-01 14:00'',
       price = PosInf\<rparr>], [])"
  by (rule parse_single) (rule example_lines_accepted)

subsection \<open>C2: a query timestamp that does not parse\<close>

text \<open>
  Claim C2, as the code has it. The query loop catches no exception. When the database
  is not empty and some predicate set of the batch has a \<^verbatim>\<open>departure_datetime\<close> or
  \<^verbatim>\<open>arrival_datetime\<close> value that \<^verbatim>\<open>to_dt\<close> cannot convert, the whole query run ends
  with an exception and no result is produced for any predicate set, whether the batch is
  an array or that single object.
\<close>

theorem malformed_query_timestamp_faults:
  assumes "all_valid \<noteq> []" and "JObject items \<in> set qs" and "(k, v) \<in> set items"
    and "k = ''departure_datetime'' \<or> k = ''arrival_datetime''" and "isl (to_dt v)"
  shows "isl (run_queries all_valid (JArray qs)) \<and> isl (run_queries all_valid (JObject items))"
proof -
  from assms(1) obtain f rest where db: "all_valid = f # rest" by (cases all_valid) auto
  have "isl (match_flight f (JObject items))"
    using match_items_bad [OF assms(3,4,5)] by (simp add: match_flight_def)
  then have bad: "isl (query_matches all_valid (JObject items) [])"
    by (cases "match_flight f (JObject items)") (auto simp: db)
  from query_loop_bad [OF assms(2) bad] have "isl (run_queries all_valid (JArray qs))"
    by (simp add: run_queries_def)
  moreover from bad have "isl (run_queries all_valid (JObject items))"
    by (cases "query_matches all_valid (JObject items) []") (auto simp: run_queries_def)
  ultimately show ?thesis ..
qed

text \<open>
  Claim C2, the theorem at a batch of two predicate sets, the second with an arrival
  bound in month 13.
\<close>

theorem malformed_query_timestamp_faults_witness:
  "[\<lparr>flight_id = ''CD34'', origin = ''RIX'', destination = ''JFK'',
        departure_datetime = ''2024-05-03 08:00'', arrival_datetime = ''2024-05-03 18:30'',
        price = Finite 99\<rparr>] \<noteq> []
   \<and> isl (to_dt (JStr ''2024-13-01 10:00''))
   \<and> isl (run_queries
     [\<lparr>flight_id = ''CD34'', origin = ''RIX'', destination = ''JFK'',
        departure_datetime = ''2024-05-03 08:00'', arrival_datetime = ''2024-05-03 18:30'',
        price = Finite 99\<rparr>]
     (JArray [JObject [(''destination'', JStr ''JFK'')],
        JObject [(''price'', JNum (Finite 100)),
          (''arrival_datetime'', JStr ''2024-13-01 10:00'')]]))
   \<and> isl (run_queries
     [\<lparr>flight_id = ''CD34'', origin = ''RIX'', destination = ''JFK'',
        departure_datetime = ''2024-05-03 08:00'', arrival_datetime = ''2024-05-03 18:30'',
        price = Finite 99\<rparr>]
     (JObject [(''price'', JNum (Finite 100)),
        (''arrival_datetime'', JStr ''2024-13-01 10:00'')]))"
proof -
  have bad: "isl (to_dt (JStr ''2024-13-01 10:00''))"
    by (simp add: to_dt_def strptime_examples)
  from malformed_query_timestamp_faults [where k = "''arrival_datetime''"
      and v = "JStr ''2024-13-01 10:00''"
      and items = "[(''price'', JNum (Finite 100)),
        (''arrival_datetime'', JStr ''2024-13-01 10:00'')]"
      and qs = "[JObject [(''destination'', JStr ''JFK'')],
        JObject [(''price'', JNum (Finite 100)),
          (''arrival_datetime'', JStr ''2024-13-01 10:00'')]]"
      and all_valid = "[\<lparr>flight_id = ''CD34'', origin = ''RIX'', destination = ''JFK'',
        departure_datetime = ''2024-05-03 08:00'', arrival_datetime = ''2024-05-03 18:30'',
        price = Finite 99\<rparr>]", OF _ _ _ _ bad]
  show ?thesis using bad by simp
qed

text \<open>
  Claim C2 as stated fails: a predicate set on the origin alone produces its result, and
  the same predicate set followed by one with a departure bound that does not parse
  produces none, because the run ends with \<^verbatim>\<open>ValueError\<close>.
\<close>

theorem malformed_query_timestamp_counterexample:
  "run_queries
     [\<lparr>flight_id = ''AB12'', origin = ''JFK'', destination = ''LAX'',
        departure_datetime = ''2024-05-01 10:00'', arrival_datetime = ''2024-05-01 14:00'',
        price = Finite 250\<rparr>]
     (JArray [JObject [(''origin'', JStr ''JFK'')]]) =
   Inr [\<lparr>query = JObject [(''origin'', JStr ''JFK'')],
     matches =
       [\<lparr>flight_id = ''AB12'', origin = ''JFK'', destination = ''LAX'',
          departure_datetime = ''2024-05-01 10:00'', arrival_datetime = ''2024-05-01 14:00'',
          price = Finite 250\<rparr>]\<rparr>]
   \<and> run_queries
     [\<lparr>flight_id = ''AB12'', origin = ''JFK'', destination = ''LAX'',
        departure_datetime = ''2024-05-01 10:00'', arrival_datetime = ''2024-05-01 14:00'',
        price = Finite 250\<rparr>]
     (JArray [JObject [(''origin'', JStr ''JFK'')],
        JObject [(''departure_datetime'', JStr ''tomorrow'')]]) =
   Inl ValueError"
  by (simp add: run_queries_def match_flight_def check_key_def flight_field_def to_dt_def
      strptime_examples)

subsection \<open>C3: the airport code check\<close>




subsection \<open>C4: the lower bound on the departure\<close>

text \<open>
  Claim C4, as the code has it. The key of the lower bound on the departure is
  \<^verbatim>\<open>departure_datetime\<close>. When its value parses to the timestamp \<open>t\<close> and the departure
  of a record parses to \<open>d\<close>, the predicate leaves \<^verbatim>\<open>ok\<close> true exactly when \<open>t \<le> d\<close>; a
  record that matches a predicate set containing the key has \<open>t \<le> d\<close>; and on a database
  whose departures all parse, the predicate set of this key alone returns exactly the
  records with \<open>t \<le> d\<close>, in the order of the database.
\<close>

theorem departure_datetime_lower_bound:
  assumes "strptime s = Some t"
  shows "(strptime (departure_datetime f) = Some d \<longrightarrow>
       check_key f ''departure_datetime'' (JStr s) ok = Inr (ok \<and> t \<le> d))
    \<and> (strptime (departure_datetime f) = Some d
         \<and> (''departure_datetime'', JStr s) \<in> set items
         \<and> match_flight f (JObject items) = Inr True \<longrightarrow> t \<le> d)
    \<and> ((\<forall>g\<in>set db. strptime (departure_datetime g) \<noteq> None) \<longrightarrow>
       run_queries db (JObject [(''departure_datetime'', JStr s)]) =
         Inr [\<lparr>query = JObject [(''departure_datetime'', JStr s)],
               matches = filter (\<lambda>g. case strptime (departure_datetime g) of
                   Some d' \<Rightarrow> t \<le> d' | None \<Rightarrow> False) db\<rparr>])"
proof (intro conjI impI)
  assume "strptime (departure_datetime f) = Some d"
  from check_key_departure [OF assms this]
  show "check_key f ''departure_datetime'' (JStr s) ok = Inr (ok \<and> t \<le> d)" .
next
  assume a: "strptime (departure_datetime f) = Some d
    \<and> (''departure_datetime'', JStr s) \<in> set items
    \<and> match_flight f (JObject items) = Inr True"
  then have "match_items f items True = Inr True" by (simp add: match_flight_def)
  from match_items_all [OF this] a
  have "check_key f ''departure_datetime'' (JStr s) True = Inr True" by blast
  with check_key_departure [OF assms, of f d True] a show "t \<le> d" by simp
next
  assume all: "\<forall>g\<in>set db. strptime (departure_datetime g) \<noteq> None"
  let ?q = "JObject [(''departure_datetime'', JStr s)]"
  have m: "match_flight g ?q = Inr (case strptime (departure_datetime g) of
      Some d' \<Rightarrow> t \<le> d' | None \<Rightarrow> False)" if "g \<in> set db" for g
  proof -
    from all that obtain d' where d': "strptime (departure_datetime g) = Some d'" by auto
    with check_key_departure [OF assms d', of True] show ?thesis
      by (simp add: match_flight_def)
  qed
  then have "\<forall>g\<in>set db. \<not> isl (match_flight g ?q)" by simp
  from query_matches_total [OF this, of "[]"]
  have "query_matches db ?q [] = Inr (filter (\<lambda>g. match_flight g ?q = Inr True) db)" by simp
  also have "filter (\<lambda>g. match_flight g ?q = Inr True) db =
      filter (\<lambda>g. case strptime (departure_datetime g) of
          Some d' \<Rightarrow> t \<le> d' | None \<Rightarrow> False) db"
    using m by (intro filter_cong) auto
  finally show "run_queries db ?q = Inr [\<lparr>query = ?q,
      matches = filter (\<lambda>g. case strptime (departure_datetime g) of
          Some d' \<Rightarrow> t \<le> d' | None \<Rightarrow> False) db\<rparr>]"
    by (rule run_queries_single)
qed

text \<open>
  Claim C4, the theorem at the bound 2 May 2024, 00:00, and a database of a flight that
  leaves on 1 May and one that leaves on 3 May.
\<close>

theorem departure_datetime_lower_bound_witness:
  "strptime ''2024-05-02 00:00'' = Some (2024, 5, 2, 0, 0)
   \<and> strptime ''2024-05-01 10:00'' = Some (2024, 5, 1, 10, 0)
   \<and> strptime ''2024-05-03 08:00'' = Some (2024, 5, 3, 8, 0)
   \<and> check_key
       \<lparr>flight_id = ''AB12'', origin = ''JFK'', destination = ''LAX'',
         departure_datetime = ''2024-05-01 10:00'', arrival_datetime = ''2024-05-01 14:00'',
         price = Finite 250\<rparr>
       ''departure_datetime'' (JStr ''2024-05-02 00:00'') True = Inr False
   \<and> run_queries
       [\<lparr>flight_id = ''AB12'', origin = ''JFK'', destination = ''LAX'',
          departure_datetime = ''2024-05-01 10:00'', arrival_datetime = ''2024-05-01 14:00'',
          price = Finite 250\<rparr>,
        \<lparr>flight_id = ''CD34'', origin = ''RIX'', destination = ''JFK'',
          departure_datetime = ''2024-05-03 08:00'', arrival_datetime = ''2024-05-03 18:30'',
          price = Finite 99\<rparr>]
       (JObject [(''departure_datetime'', JStr ''2024-05-02 00:00'')]) =
     Inr [\<lparr>query = JObject [(''departure_datetime'', JStr ''2024-05-02 00:00'')],
       matches =
         [\<lparr>flight_id = ''CD34'', origin = ''RIX'', destination = ''JFK'',
            departure_datetime = ''2024-05-03 08:00'', arrival_datetime = ''2024-05-03 18:30'',
            price = Finite 99\<rparr>]\<rparr>]"
  using departure_datetime_lower_bound [OF strptime_examples(3),
      of "\<lparr>flight_id = ''AB12'', origin = ''JFK'', destination = ''LAX'',
         departure_datetime = ''2024-05-01 10:00'', arrival_datetime = ''2024-05-01 14:00'',
         price = Finite 250\<rparr>" "(2024, 5, 1, 10, 0)" True "[]"
      "[\<lparr>flight_id = ''AB12'', origin = ''JFK'', destination = ''LAX'',
          departure_datetime = ''2024-05-01 10:00'', arrival_datetime = ''2024-05-01 14:00'',
          price = Finite 250\<rparr>,
        \<lparr>flight_id = ''CD34'', origin = ''RIX'', destination = ''JFK'',
          departure_datetime = ''2024-05-03 08:00'', arrival_datetime = ''2024-05-03 18:30'',
          price = Finite 99\<rparr>]"]
  by (simp add: strptime_examples)

text \<open>
  Claim C4 as stated fails: under the key \<^verbatim>\<open>departure_time\<close> the bound is ignored.
  The flight leaves on 1 May, before the bound of 2 May, and is returned all the same.
\<close>

theorem departure_datetime_lower_bound_counterexample:
  "strptime ''2024-05-01 10:00'' = Some (2024, 5, 1, 10, 0)
   \<and> strptime ''2024-05-02 00:00'' = Some (2024, 5, 2, 0, 0)
   \<and> \<not> (2024, 5, 2, 0, 0) \<le> ((2024, 5, 1, 10, 0) :: datetime)
   \<and> run_queries
       [\<lparr>flight_id = ''AB12'', origin = ''JFK'', destination = ''LAX'',
          departure_datetime = ''2024-05-01 10:00'', arrival_datetime = ''2024-05-01 14:00'',
          price = Finite 250\<rparr>]
       (JObject [(''departure_time'', JStr ''2024-05-02 00:00'')]) =
     Inr [\<lparr>query = JObject [(''departure_time'', JStr ''2024-05-02 00:00'')],
       matches =
         [\<lparr>flight_id = ''AB12'', origin = ''JFK'', destination = ''LAX'',
            departure_datetime = ''2024-05-01 10:00'', arrival_datetime = ''2024-05-01 14:00'',
            price = Finite 250\<rparr>]\<rparr>]"
  by (simp add: run_queries_def match_flight_def check_key_def strptime_examples)

subsection \<open>C5: every data line is accepted or rejected, and the counts\<close>

text \<open>
  Claim C5. \<^verbatim>\<open>parse_csv_file\<close> returns for every list of lines; the number of accepted
  records plus the number of rejection entries (the entries of the error list other than
  the notices for comment lines) is the number of lines minus the blank, the comment and
  the header lines; and a line that is none of the three is either accepted or rejected,
  never both and never neither.
\<close>

theorem partition_count:
  "(\<exists>valid_flights error_entries.
       parse_csv_file lines = Inr (valid_flights, error_entries)
       \<and> length valid_flights + length (filter is_rejection error_entries)
         = length lines - length (filter blank_line lines)
             - length (filter comment_line lines) - length (filter header_line lines)
       \<and> length (filter blank_line lines) + length (filter comment_line lines)
           + length (filter header_line lines) \<le> length lines)
   \<and> (\<not> blank_line raw \<and> \<not> comment_line raw \<and> \<not> header_line raw \<longrightarrow>
        (\<exists>f. process_line n raw = Accepted f)
          \<noteq> (\<exists>e. process_line n raw = Rejected e \<and> is_rejection e))"
proof
  from parse_lines_count [of 1 lines "[]" "[]"]
  show "\<exists>valid_flights error_entries.
       parse_csv_file lines = Inr (valid_flights, error_entries)
       \<and> length valid_flights + length (filter is_rejection error_entries)
         = length lines - length (filter blank_line lines)
             - length (filter comment_line lines) - length (filter header_line lines)
       \<and> length (filter blank_line lines) + length (filter comment_line lines)
           + length (filter header_line lines) \<le> length lines"
    unfolding parse_csv_file_def by (elim exE conjE, intro exI conjI) (assumption, simp_all)
next
  show "\<not> blank_line raw \<and> \<not> comment_line raw \<and> \<not> header_line raw \<longrightarrow>
        (\<exists>f. process_line n raw = Accepted f)
          \<noteq> (\<exists>e. process_line n raw = Rejected e \<and> is_rejection e)"
  proof (cases rule: process_line_cases [of raw n])
    case short
    with rejected_is_rejection [OF short(5)] show ?thesis by simp
  next
    case rejected
    with rejected_is_rejection [OF rejected(6)] show ?thesis by simp
  qed (simp_all add: blank_line_def comment_line_def header_line_def)
qed

text \<open>
  Claim C5, the theorem at a file of six lines: a header, a comment, a blank line, a
  valid line, a line that breaks five rules and a line of three fields. One record is
  accepted and two lines are rejected: 1 + 2 = 6 - 1 - 1 - 1.
\<close>

theorem partition_count_witness:
  "parse_csv_file
     [''flight_id,origin,destination,departure_datetime,arrival_datetime,price'',
      ''# spring schedule'', ''   '',
      ''AB12,JFK,LAX,2024-05-01 10:00,2024-05-01 14:00,250'',
      ''A,jfk,XXX,2024-05-01 14:00,2024-05-01 10:00,-1'', ''AB12,JFK,LAX''] =
     Inr ([\<lparr>flight_id = ''AB12'', origin = ''JFK'', destination = ''LAX'',
         departure_datetime = ''2024-05-01 10:00'', arrival_datetime = ''2024-05-01 14:00'',
         price = Finite 250\<rparr>],
       [\<lparr>entry_line = 2, entry_text = ''# spring schedule'',
          entry_reason = ''comment line, ignored for data parsing''\<rparr>,
        \<lparr>entry_line = 5, entry_text = ''A,jfk,XXX,2024-05-01 14:00,2024-05-01 10:00,-1'',
          entry_reason = ''invalid flight_id, invalid origin code, invalid destination code, arrival before departure, negative price value''\<rparr>,
        \<lparr>entry_line = 6, entry_text = ''AB12,JFK,LAX'',
          entry_reason = ''missing required fields''\<rparr>])
   \<and> \<not> blank_line ''AB12,JFK,LAX,2024-05-01 10:00,2024-05-01 14:00,250''
   \<and> \<not> comment_line ''AB12,JFK,LAX,2024-05-01 10:00,2024-05-01 14:00,250''
   \<and> \<not> header_line ''AB12,JFK,LAX,2024-05-01 10:00,2024-05-01 14:00,250''
   \<and> process_line 4 ''AB12,JFK,LAX,2024-05-01 10:00,2024-05-01 14:00,250'' =
     Accepted \<lparr>flight_id = ''AB12'', origin = ''JFK'', destination = ''LAX'',
       departure_datetime = ''2024-05-01 10:00'', arrival_datetime = ''2024-05-01 14:00'',
       price = Finite 250\<rparr>"
  using partition_count [of
      "[''flight_id,origin,destination,departure_datetime,arrival_datetime,price'',
        ''# spring schedule'', ''   '',
        ''AB12,JFK,LAX,2024-05-01 10:00,2024-05-01 14:00,250'',
        ''A,jfk,XXX,2024-05-01 14:00,2024-05-01 10:00,-1'', ''AB12,JFK,LAX'']"
      "''AB12,JFK,LAX,2024-05-01 10:00,2024-05-01 14:00,250''" 4]
  by (simp add: parse_csv_file_def example_lines_accepted example_line_rejected
      example_other_lines example_data_lines)

subsection \<open>C6: all the reasons of a line, in the order of the checks\<close>

text \<open>
  Claim C6. For a data line of six fields, the reasons the code collects are all the
  reasons that apply, none left out after the first, in the order flight id, origin
  code, destination code, departure datetime, arrival datetime, arrival before departure,
  price; and when at least one applies (so also when two or more do), the line is
  rejected with an entry whose reason text is these reasons joined by a comma and a
  space.
\<close>

theorem reasons_collected_in_order:
  assumes "\<not> blank_line raw" and "\<not> comment_line raw" and "\<not> header_line raw"
    and "split_comma (strip raw) = [fid, org, dst, dep_str, arr_str, price_str]"
  shows "field_reasons fid org dst dep_str arr_str price_str
      = applicable_reasons fid org dst dep_str arr_str price_str
    \<and> (applicable_reasons fid org dst dep_str arr_str price_str \<noteq> [] \<longrightarrow>
        process_line n raw = Rejected \<lparr>entry_line = n, entry_text = strip raw,
          entry_reason = join '', '' (applicable_reasons fid org dst dep_str arr_str price_str)\<rparr>)"
proof -
  from assms(1-3) have line: "strip raw \<noteq> []" "\<not> startswith (strip raw) ''#''"
    "\<not> startswith (strip raw) ''flight_id''"
    by (simp_all add: blank_line_def comment_line_def header_line_def)
  from process_line_data [OF line, of n] assms(4) show ?thesis
    by (simp add: field_reasons_eq)
qed

text \<open>
  Claim C6, the theorem at a line that breaks five rules: a flight id of one character,
  a lowercase origin, the destination \<^verbatim>\<open>XXX\<close>, an arrival before the departure and a
  negative price.
\<close>

theorem reasons_collected_in_order_witness:
  "\<not> blank_line ''A,jfk,XXX,2024-05-01 14:00,2024-05-01 10:00,-1''
   \<and> \<not> comment_line ''A,jfk,XXX,2024-05-01 14:00,2024-05-01 10:00,-1''
   \<and> \<not> header_line ''A,jfk,XXX,2024-05-01 14:00,2024-05-01 10:00,-1''
   \<and> field_reasons ''A'' ''jfk'' ''XXX'' ''2024-05-01 14:00'' ''2024-05-01 10:00'' ''-1'' =
     [''invalid flight_id'', ''invalid origin code'', ''invalid destination code'',
      ''arrival before departure'', ''negative price value'']
   \<and> process_line 7 ''A,jfk,XXX,2024-05-01 14:00,2024-05-01 10:00,-1'' =
     Rejected \<lparr>entry_line = 7,
       entry_text = ''A,jfk,XXX,2024-05-01 14:00,2024-05-01 10:00,-1'',
       entry_reason = ''invalid flight_id, invalid origin code, invalid destination code, arrival before departure, negative price value''\<rparr>"
  using reasons_collected_in_order [OF example_data_lines(4,5,6) split_examples(6), of 7]
  by (simp add: example_reasons example_data_lines strip_examples)

subsection \<open>C7: the upper bound on the price\<close>




subsection \<open>C8: the matches keep the order of the database\<close>



subsection \<open>C9: no relation between origin and destination\<close>

text \<open>
  Claim C9. A line of six fields whose fields pass their own checks is accepted, and the
  record holds the fields as given. No premise relates the origin to the destination, so
  this covers a line whose origin equals its destination.
\<close>

theorem same_airport_accepted:
  assumes "split_comma (strip raw) = [fid, org, dst, dep_str, arr_str, price_str]"
    and "flight_id_ok fid"
    and "check_airport org ''origin'' = None" and "check_airport dst ''destination'' = None"
    and "strptime dep_str = Some d" and "strptime arr_str = Some a" and "d < a"
    and "py_float price_str = Some p" and "\<not> float_le p (Finite 0)"
  shows "process_line n raw = Accepted \<lparr>flight_id = fid, origin = org, destination = dst,
    departure_datetime = dep_str, arrival_datetime = arr_str, price = p\<rparr>"
proof -
  from data_line_of_flight_id [OF assms(1,2)]
  have line: "strip raw \<noteq> []" "\<not> startswith (strip raw) ''#''"
    "\<not> startswith (strip raw) ''flight_id''" by simp_all
  have "field_reasons fid org dst dep_str arr_str price_str = []"
    unfolding field_reasons_Nil using assms(2-9) by simp
  with process_line_data [OF line, of n] assms(1,8) show ?thesis by simp
qed

text \<open>Claim C9, the theorem at a line from \<^verbatim>\<open>JFK\<close> to \<^verbatim>\<open>JFK\<close>.\<close>

theorem same_airport_accepted_witness:
  "split_comma (strip ''AB12,JFK,JFK,2024-5-1 9:05,2024-5-1 14:00,250'') =
     [''AB12'', ''JFK'', ''JFK'', ''2024-5-1 9:05'', ''2024-5-1 14:00'', ''250'']
   \<and> flight_id_ok ''AB12'' \<and> check_airport ''JFK'' ''origin'' = None
   \<and> check_airport ''JFK'' ''destination'' = None
   \<and> strptime ''2024-5-1 9:05'' = Some (2024, 5, 1, 9, 5)
   \<and> strptime ''2024-5-1 14:00'' = Some (2024, 5, 1, 14, 0)
   \<and> (2024, 5, 1, 9, 5) < ((2024, 5, 1, 14, 0) :: datetime)
   \<and> py_float ''250'' = Some (Finite 250) \<and> \<not> float_le (Finite 250) (Finite 0)
   \<and> process_line 1 ''AB12,JFK,JFK,2024-5-1 9:05,2024-5-1 14:00,250'' =
     Accepted \<lparr>flight_id = ''AB12'', origin = ''JFK'', destination = ''JFK'',
       departure_datetime = ''2024-5-1 9:05'', arrival_datetime = ''2024-5-1 14:00'',
       price = Finite 250\<rparr>"
proof -
  have lt: "(2024, 5, 1, 9, 5) < ((2024, 5, 1, 14, 0) :: datetime)" by simp
  have pos: "\<not> float_le (Finite 250) (Finite 0)" by simp
  from same_airport_accepted [OF split_examples(5) field_examples(1,3,4)
      strptime_examples(5,6) lt py_float_examples(1) pos, of 1]
    split_examples(5) field_examples(1,3,4) strptime_examples(5,6) lt py_float_examples(1) pos
  show ?thesis by blast
qed

subsection \<open>C10: timestamps without zero padding, stored as written\<close>

text \<open>
  Claim C10. The departure field \<^verbatim>\<open>2024-5-1 9:05\<close>, without zero padding, parses
  under the format, to 1 May 2024, 9:05; and the record of an accepted line stores as
  departure and arrival the fourth and the fifth field of the line, character for
  character.
\<close>

theorem timestamps_kept_verbatim:
  "strptime ''2024-5-1 9:05'' = Some (2024, 5, 1, 9, 5)
   \<and> (process_line n raw = Accepted f \<longrightarrow>
       departure_datetime f = split_comma (strip raw) ! 3
       \<and> arrival_datetime f = split_comma (strip raw) ! 4)"
proof
  show "strptime ''2024-5-1 9:05'' = Some (2024, 5, 1, 9, 5)"
    by (rule strptime_examples)
  show "process_line n raw = Accepted f \<longrightarrow>
       departure_datetime f = split_comma (strip raw) ! 3
       \<and> arrival_datetime f = split_comma (strip raw) ! 4"
    by (cases rule: process_line_cases [of raw n]) auto
qed

text \<open>Claim C10, the theorem at an accepted line with both timestamps unpadded.\<close>

theorem timestamps_kept_verbatim_witness:
  "process_line 3 ''AB12,JFK,JFK,2024-5-1 9:05,2024-5-1 14:00,250'' =
     Accepted \<lparr>flight_id = ''AB12'', origin = ''JFK'', destination = ''JFK'',
       departure_datetime = ''2024-5-1 9:05'', arrival_datetime = ''2024-5-1 14:00'',
       price = Finite 250\<rparr>
   \<and> split_comma (strip ''AB12,JFK,JFK,2024-5-1 9:05,2024-5-1 14:00,250'') ! 3 =
     ''2024-5-1 9:05''
   \<and> split_comma (strip ''AB12,JFK,JFK,2024-5-1 9:05,2024-5-1 14:00,250'') ! 4 =
     ''2024-5-1 14:00''"
  using timestamps_kept_verbatim [of 3 "''AB12,JFK,JFK,2024-5-1 9:05,2024-5-1 14:00,250''"
      "\<lparr>flight_id = ''AB12'', origin = ''JFK'', destination = ''JFK'',
        departure_datetime = ''2024-5-1 9:05'', arrival_datetime = ''2024-5-1 14:00'',
        price = Finite 250\<rparr>"]
  by (simp add: example_lines_accepted split_examples)

end
